theory Spec2Isabelle
  imports Complex_Main "HOL-Library.Sublist"
begin

section \<open>Job fraud classifier service: text normalisation and artifact cache\<close>

text \<open>
  A shallow embedding of \<^verbatim>\<open>docker/app/main.py\<close>. Python exceptions are values of the
  datatype \<open>py_exc\<close>, and a function that can raise returns \<open>py_exc + 'a\<close> with \<open>Inl\<close>
  for the exception. The module-level dictionaries \<^verbatim>\<open>model_cache\<close> and
  \<^verbatim>\<open>vectorizer_cache\<close> are fields of an explicit state that every resolution takes and
  returns.

  What the module imports and does not define is a parameter of the model: the Unicode
  tables behind \<^verbatim>\<open>str.lower\<close>, \<^verbatim>\<open>\w\<close> and \<^verbatim>\<open>\s\<close>, the NLTK tokenizer, stop-word list and
  lemmatizer, \<^verbatim>\<open>joblib.load\<close> with the file system behind it, and the methods of the
  loaded scikit-learn objects.
\<close>

subsection \<open>Exceptions\<close>

text \<open>
  \<open>ValueError\<close> and \<open>FileNotFoundError\<close> are the two classes the module raises and
  catches by name; \<open>IndexError\<close> is what an index out of range raises; \<open>OtherException\<close>
  is an exception of any other class (\<^verbatim>\<open>PermissionError\<close>, \<^verbatim>\<open>UnpicklingError\<close>,
  \<^verbatim>\<open>EOFError\<close>, ...), which only \<^verbatim>\<open>except Exception\<close> catches; \<open>HTTPException\<close>
  carries \<^verbatim>\<open>status_code\<close> and \<^verbatim>\<open>detail\<close>. The string is \<^verbatim>\<open>str(e)\<close>.
\<close>

datatype py_exc =
    ValueError string
  | FileNotFoundError string
  | IndexError string
  | OtherException string
  | HTTPException nat string

fun exc_str :: "py_exc \<Rightarrow> string" where
  "exc_str (ValueError m) = m"
| "exc_str (FileNotFoundError m) = m"
| "exc_str (IndexError m) = m"
| "exc_str (OtherException m) = m"
| "exc_str (HTTPException c m) = m"

text \<open>
  \<^verbatim>\<open>xs[i]\<close> on a list or a one-dimensional array: a negative index counts from the end,
  an index out of range raises \<^verbatim>\<open>IndexError\<close>.
\<close>

definition py_getitem :: "'a list \<Rightarrow> int \<Rightarrow> py_exc + 'a" where
  "py_getitem xs i =
     (if 0 \<le> i \<and> i < int (length xs) then Inr (xs ! nat i)
      else if i < 0 \<and> - int (length xs) \<le> i then Inr (xs ! nat (int (length xs) + i))
      else Inl (IndexError ''index out of range''))"

subsection \<open>Text normalisation\<close>

text \<open>
  A Python \<^verbatim>\<open>str\<close> is a sequence of code points: the text is a list over a type \<open>'c\<close> of
  code points, so that \<^verbatim>\<open>len\<close> is \<open>length\<close>. The record holds what
  \<^verbatim>\<open>preprocess_text\<close> takes from Python and NLTK:
  \<^item> \<open>str_lower\<close> is \<^verbatim>\<open>str.lower\<close> (a function of the whole string: it may change the
    length and depends on context for the final sigma);
  \<^item> \<open>re_word\<close> and \<open>re_space\<close> are the classes \<^verbatim>\<open>\w\<close> and \<^verbatim>\<open>\s\<close> of \<^verbatim>\<open>re\<close> on \<^verbatim>\<open>str\<close>
    patterns; \<^verbatim>\<open>str.strip()\<close> strips the same class \<^verbatim>\<open>\s\<close>;
  \<^item> \<open>space_char\<close> is the code point of \<^verbatim>\<open>' '\<close>;
  \<^item> \<open>word_tokenize\<close>, \<open>stop_words\<close> and \<open>lemmatize\<close> are
    \<^verbatim>\<open>nltk.tokenize.word_tokenize\<close>, \<^verbatim>\<open>set(stopwords.words('english'))\<close> and
    \<^verbatim>\<open>WordNetLemmatizer().lemmatize\<close> with its default part of speech, the noun.
  The NLTK resources are taken as installed, so these functions are total.
\<close>

record 'c text_env =
  str_lower :: "'c list \<Rightarrow> 'c list"
  re_word :: "'c \<Rightarrow> bool"
  re_space :: "'c \<Rightarrow> bool"
  space_char :: "'c"
  word_tokenize :: "'c list \<Rightarrow> 'c list list"
  stop_words :: "'c list set"
  lemmatize :: "'c list \<Rightarrow> 'c list"

text \<open>\<^verbatim>\<open>re.sub(r'[^\w\s]', '', string)\<close>: every character outside both classes is deleted.\<close>

definition re_sub_punct :: "'c text_env \<Rightarrow> 'c list \<Rightarrow> 'c list" where
  "re_sub_punct E string = filter (\<lambda>c. re_word E c \<or> re_space E c) string"

fun punctuation_remover :: "'c text_env \<Rightarrow> 'c list list \<Rightarrow> 'c list list" where
  "punctuation_remover E [] = []"
| "punctuation_remover E (string # strings) =
     re_sub_punct E string # punctuation_remover E strings"

text \<open>
  \<^verbatim>\<open>re.sub(r'\s+', ' ', text)\<close>: each maximal run of whitespace becomes one \<^verbatim>\<open>' '\<close>.
\<close>

function re_sub_spaces :: "'c text_env \<Rightarrow> 'c list \<Rightarrow> 'c list" where
  "re_sub_spaces E [] = []"
| "re_sub_spaces E (c # cs) =
     (if re_space E c then space_char E # re_sub_spaces E (dropWhile (re_space E) cs)
      else c # re_sub_spaces E cs)"
  by pat_completeness auto
termination
  by (relation "measure (\<lambda>(E, cs). length cs)")
     (auto simp: le_imp_less_Suc length_dropWhile_le)

text \<open>\<^verbatim>\<open>text.strip()\<close>: leading and trailing whitespace is removed.\<close>

definition str_strip :: "'c text_env \<Rightarrow> 'c list \<Rightarrow> 'c list" where
  "str_strip E text = rev (dropWhile (re_space E) (rev (dropWhile (re_space E) text)))"

text \<open>\<^verbatim>\<open>sep.join(tokens)\<close>.\<close>

fun str_join :: "'c list \<Rightarrow> 'c list list \<Rightarrow> 'c list" where
  "str_join sep [] = []"
| "str_join sep [t] = t"
| "str_join sep (t # u # ts) = t @ sep @ str_join sep (u # ts)"

text \<open>
  The argument of \<^verbatim>\<open>preprocess_text\<close> is annotated \<^verbatim>\<open>str\<close>, and the function guards
  against anything else: \<open>PyNone\<close> is \<^verbatim>\<open>None\<close>, \<open>PyInt\<close> a value that is not a string.
\<close>

datatype 'c py_value = PyNone | PyStr "'c list" | PyInt int

text \<open>\<^verbatim>\<open>not text\<close> and \<^verbatim>\<open>isinstance(text, str)\<close>.\<close>

fun py_not :: "'c py_value \<Rightarrow> bool" where
  "py_not PyNone = True"
| "py_not (PyStr s) = (s = [])"
| "py_not (PyInt n) = (n = 0)"

fun isinstance_str :: "'c py_value \<Rightarrow> bool" where
  "isinstance_str (PyStr s) = True"
| "isinstance_str v = False"

fun the_str :: "'c py_value \<Rightarrow> 'c list" where
  "the_str (PyStr s) = s"
| "the_str v = []"

text \<open>
  \<^verbatim>\<open>preprocess_text\<close>, statement by statement. The only place where the function's own
  code can raise is the index \<^verbatim>\<open>[0]\<close> into the list that \<^verbatim>\<open>punctuation_remover\<close> returns.
\<close>

definition preprocess_text :: "'c text_env \<Rightarrow> 'c py_value \<Rightarrow> py_exc + 'c list" where
  "preprocess_text E text =
     (if py_not text \<or> \<not> isinstance_str text then Inr []
      else
        let text1 = str_lower E (the_str text) in
        case py_getitem (punctuation_remover E [text1]) 0 of
          Inl e \<Rightarrow> Inl e
        | Inr text2 \<Rightarrow>
            let text3 = str_strip E (re_sub_spaces E text2);
                tokens = word_tokenize E text3;
                tokens' = map (lemmatize E) (filter (\<lambda>word. word \<notin> stop_words E) tokens)
            in Inr (str_join [space_char E] tokens'))"

subsection \<open>The normaliser as the specification describes it\<close>

text \<open>
  The steps 2 to 7 of the specification's section 4.1, each as a function of its own,
  and their composition in the order the specification gives.
\<close>

definition spec_case_fold :: "'c text_env \<Rightarrow> 'c list \<Rightarrow> 'c list" where
  "spec_case_fold E s = str_lower E s"

fun spec_strip_punctuation :: "'c text_env \<Rightarrow> 'c list \<Rightarrow> 'c list" where
  "spec_strip_punctuation E [] = []"
| "spec_strip_punctuation E (c # cs) =
     (if \<not> (re_word E c \<or> re_space E c) then spec_strip_punctuation E cs
      else c # spec_strip_punctuation E cs)"

text \<open>
  Step 4. \<open>spec_collapse\<close> reads the text from the left and remembers whether the
  character before was whitespace: the first whitespace character of a run is replaced by
  one space, the others of the run are dropped. \<open>spec_trim_leading\<close> drops whitespace
  from the front; \<open>spec_trim_trailing\<close> keeps a character unless it is whitespace and
  nothing is kept after it.
\<close>

fun spec_collapse :: "'c text_env \<Rightarrow> bool \<Rightarrow> 'c list \<Rightarrow> 'c list" where
  "spec_collapse E in_run [] = []"
| "spec_collapse E in_run (c # cs) =
     (if re_space E c
      then (if in_run then spec_collapse E True cs
            else space_char E # spec_collapse E True cs)
      else c # spec_collapse E False cs)"

fun spec_trim_leading :: "'c text_env \<Rightarrow> 'c list \<Rightarrow> 'c list" where
  "spec_trim_leading E [] = []"
| "spec_trim_leading E (c # cs) = (if re_space E c then spec_trim_leading E cs else c # cs)"

fun spec_trim_trailing :: "'c text_env \<Rightarrow> 'c list \<Rightarrow> 'c list" where
  "spec_trim_trailing E [] = []"
| "spec_trim_trailing E (c # cs) =
     (if re_space E c \<and> spec_trim_trailing E cs = [] then []
      else c # spec_trim_trailing E cs)"

definition spec_collapse_trim :: "'c text_env \<Rightarrow> 'c list \<Rightarrow> 'c list" where
  "spec_collapse_trim E s =
     spec_trim_trailing E (spec_trim_leading E (spec_collapse E False s))"

text \<open>Step 7: the first token, and every further token after one space.\<close>

fun spec_join :: "'c text_env \<Rightarrow> 'c list list \<Rightarrow> 'c list" where
  "spec_join E [] = []"
| "spec_join E (t # ts) = t @ concat (map (\<lambda>u. space_char E # u) ts)"

fun spec_drop_or_lemma :: "'c text_env \<Rightarrow> 'c list list \<Rightarrow> 'c list list" where
  "spec_drop_or_lemma E [] = []"
| "spec_drop_or_lemma E (t # ts) =
     (if t \<in> stop_words E then spec_drop_or_lemma E ts
      else lemmatize E t # spec_drop_or_lemma E ts)"

definition spec_normalize :: "'c text_env \<Rightarrow> 'c list \<Rightarrow> 'c list" where
  "spec_normalize E s =
     spec_join E
       (spec_drop_or_lemma E
         (word_tokenize E
           (spec_collapse_trim E
             (spec_strip_punctuation E
               (spec_case_fold E s)))))"

subsection \<open>A small ASCII instance\<close>

text \<open>
  An instance of the parameters on 8-bit characters, to run the definitions: ASCII case
  folding, the ASCII classes, a tokenizer that splits at spaces, three of NLTK's English
  stop words and a lemmatizer that knows one plural. On the words it knows it returns what
  NLTK returns: \<^verbatim>\<open>can\<close> and \<^verbatim>\<open>will\<close> are in the English stop-word list and the noun
  lemma of \<^verbatim>\<open>cans\<close> is \<^verbatim>\<open>can\<close>.
\<close>

definition ascii_lower_char :: "char \<Rightarrow> char" where
  "ascii_lower_char c =
     (let n = (of_char c :: nat) in if 65 \<le> n \<and> n \<le> 90 then char_of (n + 32) else c)"

definition ascii_word :: "char \<Rightarrow> bool" where
  "ascii_word c =
     (let n = (of_char c :: nat) in
        (48 \<le> n \<and> n \<le> 57) \<or> (65 \<le> n \<and> n \<le> 90) \<or> n = 95 \<or> (97 \<le> n \<and> n \<le> 122))"

definition ascii_space :: "char \<Rightarrow> bool" where
  "ascii_space c = (let n = (of_char c :: nat) in (9 \<le> n \<and> n \<le> 13) \<or> (28 \<le> n \<and> n \<le> 32))"

fun split_spaces :: "string \<Rightarrow> string \<Rightarrow> string list" where
  "split_spaces acc [] = (if acc = [] then [] else [acc])"
| "split_spaces acc (c # cs) =
     (if c = CHR '' '' then (if acc = [] then [] else [acc]) @ split_spaces [] cs
      else split_spaces (acc @ [c]) cs)"

definition ascii_env :: "char text_env" where
  "ascii_env =
     \<lparr> str_lower = map ascii_lower_char,
       re_word = ascii_word,
       re_space = ascii_space,
       space_char = CHR '' '',
       word_tokenize = split_spaces [],
       stop_words = {''can'', ''will'', ''the''},
       lemmatize = (\<lambda>w. if w = ''cans'' then ''can'' else w) \<rparr>"

subsection \<open>Predicates on texts and tokens\<close>

text \<open>
  A text is purely punctuation when none of its characters is a word character or
  whitespace, and \<^verbatim>\<open>str.lower\<close> keeps punctuation when it maps such texts to such texts.
\<close>

definition punctuation_only :: "'c text_env \<Rightarrow> 'c list \<Rightarrow> bool" where
  "punctuation_only E s = list_all (\<lambda>c. \<not> re_word E c \<and> \<not> re_space E c) s"

definition lower_keeps_punctuation :: "'c text_env \<Rightarrow> bool" where
  "lower_keeps_punctuation E =
     (\<forall>s. punctuation_only E s \<longrightarrow> punctuation_only E (str_lower E s))"

text \<open>
  The list that \<^verbatim>\<open>preprocess_text\<close> joined to produce its result: the lemmas of the
  tokens that are not stop words (the variable \<^verbatim>\<open>tokens\<close> after line 95).
\<close>

definition surviving_lemmas :: "'c text_env \<Rightarrow> 'c list \<Rightarrow> 'c list list" where
  "surviving_lemmas E s =
     map (lemmatize E) (filter (\<lambda>word. word \<notin> stop_words E)
       (word_tokenize E (str_strip E (re_sub_spaces E (re_sub_punct E (str_lower E s))))))"

text \<open>A token is a plain word when it is a non-empty run of word characters.\<close>

definition plain_word :: "'c text_env \<Rightarrow> 'c list \<Rightarrow> bool" where
  "plain_word E t = (t \<noteq> [] \<and> list_all (\<lambda>c. re_word E c \<and> \<not> re_space E c) t)"

text \<open>
  A list of tokens is stable when the space is whitespace, every token is a plain word
  that is not a stop word and is its own lemma, and the joined tokens are left as they are
  by case folding and split into the same tokens by the tokenizer.
\<close>

definition stable_tokens :: "'c text_env \<Rightarrow> 'c list list \<Rightarrow> bool" where
  "stable_tokens E ts =
     (re_space E (space_char E) \<and>
      list_all (\<lambda>t. plain_word E t \<and> t \<notin> stop_words E \<and> lemmatize E t = t) ts \<and>
      str_lower E (str_join [space_char E] ts) = str_join [space_char E] ts \<and>
      word_tokenize E (str_join [space_char E] ts) = ts)"

subsection \<open>The model registry\<close>

text \<open>
  \<^verbatim>\<open>MODEL_CONFIG\<close>, in the order of the source (the order \<^verbatim>\<open>list(MODEL_CONFIG.keys())\<close>
  shows). Labels, file names and messages are compared and concatenated only: they are
  strings of 8-bit characters.
\<close>

definition MODEL_CONFIG :: "(string \<times> string \<times> string) list" where
  "MODEL_CONFIG =
     [(''nb_bow'', ''nb_model_bow.joblib'', ''bow_vectorizer.joblib''),
      (''nb_bow_res'', ''nb_model_bow_res.joblib'', ''bow_vectorizer.joblib''),
      (''nb_tfidf'', ''nb_model_tfidf.joblib'', ''tfidf_vectorizer.joblib''),
      (''nb_tfidf_res'', ''nb_model_tfidf_res.joblib'', ''tfidf_vectorizer.joblib''),
      (''lr_bow'', ''lr_model_bow.joblib'', ''bow_vectorizer.joblib''),
      (''lr_bow_res'', ''lr_model_bow_res.joblib'', ''bow_vectorizer.joblib''),
      (''lr_tfidf'', ''lr_model_tfidf.joblib'', ''tfidf_vectorizer.joblib''),
      (''lr_tfidf_res'', ''lr_model_tfidf_res.joblib'', ''tfidf_vectorizer.joblib'')]"

definition MODEL_CONFIG_keys :: "string list" where
  "MODEL_CONFIG_keys = map fst MODEL_CONFIG"

text \<open>\<^verbatim>\<open>model_label in MODEL_CONFIG\<close>, for a label that is a string or \<^verbatim>\<open>None\<close>.\<close>

fun registered :: "string option \<Rightarrow> bool" where
  "registered None = False"
| "registered (Some label) = (label \<in> set MODEL_CONFIG_keys)"

text \<open>
  \<^verbatim>\<open>str\<close> of an optional string inside an f-string, and \<^verbatim>\<open>repr\<close> of a list of strings that
  contain no quote, as the registry keys are: \<^verbatim>\<open>['nb_bow', 'nb_bow_res']\<close>.
\<close>

fun py_str_optional :: "string option \<Rightarrow> string" where
  "py_str_optional None = ''None''"
| "py_str_optional (Some s) = s"

definition py_quote :: "string \<Rightarrow> string" where
  "py_quote s = [CHR 0x27] @ s @ [CHR 0x27]"

definition py_repr_list :: "string list \<Rightarrow> string" where
  "py_repr_list xs = ''['' @ str_join '', '' (map py_quote xs) @ '']''"

subsection \<open>The artifact store and the caches\<close>

text \<open>
  \<open>joblib_load\<close> is \<^verbatim>\<open>joblib.load\<close> on the file system of the moment: a path gives a
  loaded object or an exception. \<open>MODEL_ASSETS_DIR\<close> is the directory computed from
  \<^verbatim>\<open>__file__\<close>.
\<close>

record 'a artifact_store =
  MODEL_ASSETS_DIR :: string
  joblib_load :: "string \<Rightarrow> py_exc + 'a"

definition path_join :: "string \<Rightarrow> string \<Rightarrow> string" where
  "path_join dir filename = dir @ ''/'' @ filename"

text \<open>
  The two module-level dictionaries, with two observation fields: \<open>load_log\<close> records
  the path of every call of \<^verbatim>\<open>joblib.load\<close>, \<open>stdout\<close> the printed lines.
\<close>

record 'a cache_state =
  model_cache :: "string \<rightharpoonup> 'a"
  vectorizer_cache :: "string \<rightharpoonup> 'a"
  load_log :: "string list"
  stdout :: "string list"

definition initial_state :: "'a cache_state" where
  "initial_state =
     \<lparr> model_cache = Map.empty, vectorizer_cache = Map.empty, load_log = [], stdout = [] \<rparr>"

text \<open>The message of the \<^verbatim>\<open>ValueError\<close> of line 118.\<close>

definition unknown_label_message :: "string option \<Rightarrow> string" where
  "unknown_label_message model_label =
     ''Unknown model label: '' @ py_str_optional model_label @
     ''. Available models: '' @ py_repr_list MODEL_CONFIG_keys"

text \<open>
  The handler of lines 139 and 140: a \<^verbatim>\<open>FileNotFoundError\<close> is raised again with a new
  message around the old one; an exception of any other class passes through.
\<close>

fun except_FileNotFoundError :: "string \<Rightarrow> py_exc \<Rightarrow> py_exc" where
  "except_FileNotFoundError model_label (FileNotFoundError m) =
     FileNotFoundError (''Model assets not found for '' @ py_quote model_label @ '': '' @ m)"
| "except_FileNotFoundError model_label e = e"

text \<open>
  \<^verbatim>\<open>load_model_and_vectorizer\<close>. The argument is what \<^verbatim>\<open>data.model_label\<close> holds, a string
  or \<^verbatim>\<open>None\<close>; \<^verbatim>\<open>None\<close> is not a key of \<^verbatim>\<open>MODEL_CONFIG\<close>. The result is the pair or the
  exception, with the state after the call.
\<close>

definition load_model_and_vectorizer ::
  "'a artifact_store \<Rightarrow> 'a cache_state \<Rightarrow> string option \<Rightarrow> (py_exc + 'a \<times> 'a) \<times> 'a cache_state"
where
  "load_model_and_vectorizer S st model_label =
     (case model_label of
        None \<Rightarrow> (Inl (ValueError (unknown_label_message model_label)), st)
      | Some label \<Rightarrow>
         (case map_of MODEL_CONFIG label of
            None \<Rightarrow> (Inl (ValueError (unknown_label_message model_label)), st)
          | Some (model_filename, vectorizer_filename) \<Rightarrow>
             (case (model_cache st label, vectorizer_cache st label) of
                (Some model, Some vectorizer) \<Rightarrow> (Inr (model, vectorizer), st)
              | _ \<Rightarrow>
                 let model_path = path_join (MODEL_ASSETS_DIR S) model_filename;
                     vectorizer_path = path_join (MODEL_ASSETS_DIR S) vectorizer_filename;
                     st1 = st\<lparr>load_log := load_log st @ [model_path]\<rparr>
                 in
                 (case joblib_load S model_path of
                    Inl e \<Rightarrow> (Inl (except_FileNotFoundError label e), st1)
                  | Inr model \<Rightarrow>
                     let st2 = st1\<lparr>load_log := load_log st1 @ [vectorizer_path]\<rparr> in
                     (case joblib_load S vectorizer_path of
                        Inl e \<Rightarrow> (Inl (except_FileNotFoundError label e), st2)
                      | Inr vectorizer \<Rightarrow>
                         (Inr (model, vectorizer),
                          st2\<lparr>model_cache := (model_cache st2)(label \<mapsto> model),
                              vectorizer_cache := (vectorizer_cache st2)(label \<mapsto> vectorizer),
                              stdout := stdout st2 @
                                [''Loaded model '' @ py_quote label @ '' successfully.'']\<rparr>))))))"

text \<open>
  A sequence of resolutions, each on the file system of its moment, and the state it
  leaves.
\<close>

fun resolutions ::
  "'a cache_state \<Rightarrow> ('a artifact_store \<times> string option) list \<Rightarrow> 'a cache_state" where
  "resolutions st [] = st"
| "resolutions st ((S, label) # calls) =
     resolutions (snd (load_model_and_vectorizer S st label)) calls"

text \<open>
  \<open>is_FileNotFoundError\<close> tells the class that line 140 raises for missing model assets
  from the others.
\<close>

fun is_FileNotFoundError :: "py_exc \<Rightarrow> bool" where
  "is_FileNotFoundError (FileNotFoundError m) = True"
| "is_FileNotFoundError e = False"

fun is_ValueError :: "py_exc \<Rightarrow> bool" where
  "is_ValueError (ValueError m) = True"
| "is_ValueError e = False"

subsection \<open>Concurrent callers\<close>










subsection \<open>The prediction endpoint\<close>

text \<open>
  The methods of the loaded objects: \<^verbatim>\<open>vectorizer.transform\<close>, \<^verbatim>\<open>model.predict\<close> and
  \<^verbatim>\<open>model.predict_proba\<close>, on a batch of documents; \<open>'f\<close> is the feature matrix. Each can
  raise. \<^verbatim>\<open>predict\<close> returns one class label per document, a value of the type \<open>'l\<close> of
  whatever the classifier was trained on (an integer, a float, a string). The endpoint
  does two things with such a value \<open>v\<close>: \<open>py_int\<close> is \<^verbatim>\<open>int(v)\<close>, which can raise, and
  \<open>py_eq_1\<close> is \<^verbatim>\<open>v == 1\<close>. Probabilities are numbers that the endpoint only indexes and
  copies: \<^verbatim>\<open>float\<close> leaves them as they are.
\<close>

record ('a, 'c, 'f, 'l) sklearn =
  transform :: "'a \<Rightarrow> 'c list list \<Rightarrow> py_exc + 'f"
  predict :: "'a \<Rightarrow> 'f \<Rightarrow> py_exc + 'l list"
  predict_proba :: "'a \<Rightarrow> 'f \<Rightarrow> py_exc + real list list"
  py_int :: "'l \<Rightarrow> py_exc + int"
  py_eq_1 :: "'l \<Rightarrow> bool"

text \<open>
  \<^verbatim>\<open>PredictionRequest\<close>: \<^verbatim>\<open>model_label: Optional[str] = "nb_bow"\<close>. A field of the request
  body is absent, \<^verbatim>\<open>null\<close> or given; the default stands in for an absent field only.
\<close>

record 'c PredictionRequest =
  job_description :: "'c list"
  model_label :: "string option"

datatype 'a body_field = Absent | Null | Given 'a

fun model_label_field :: "string body_field \<Rightarrow> string option" where
  "model_label_field Absent = Some ''nb_bow''"
| "model_label_field Null = None"
| "model_label_field (Given s) = Some s"

definition PredictionRequest_init :: "'c list \<Rightarrow> string body_field \<Rightarrow> 'c PredictionRequest" where
  "PredictionRequest_init text field =
     \<lparr> job_description = text, model_label = model_label_field field \<rparr>"

record probabilities_dict =
  non_fraudulent :: real
  fraudulent :: real

record PredictionResponse =
  prediction_label :: string
  prediction_code :: int
  confidence_score :: real
  probabilities :: probabilities_dict
  input_text_length :: nat
  cleaned_text_length :: nat
  model_used :: "string option"

text \<open>The three handlers around the resolution, in their order (lines 168 to 173).\<close>

fun load_error_response :: "py_exc \<Rightarrow> py_exc" where
  "load_error_response (ValueError m) = HTTPException 400 m"
| "load_error_response (FileNotFoundError m) = HTTPException 500 m"
| "load_error_response e = HTTPException 500 (''Error loading model: '' @ exc_str e)"

text \<open>
  Lines 175 to 204, once the model and the vectorizer are there. The local variables
  that share a name with a key of the response carry a prime. Line 188 indexes the
  probabilities with \<^verbatim>\<open>int(prediction_code)\<close>, line 191 tests \<^verbatim>\<open>prediction_code == 1\<close> on
  the value itself, and line 195 reports \<^verbatim>\<open>int(prediction_code)\<close> again.
\<close>

definition predict_with ::
  "'c text_env \<Rightarrow> ('a, 'c, 'f, 'l) sklearn \<Rightarrow> 'a \<Rightarrow> 'a \<Rightarrow> 'c PredictionRequest \<Rightarrow>
   py_exc + PredictionResponse" where
  "predict_with E K model vectorizer data =
     (case preprocess_text E (PyStr (job_description data)) of
        Inl e \<Rightarrow> Inl e
      | Inr cleaned_text \<Rightarrow>
     (case transform K vectorizer [cleaned_text] of
        Inl e \<Rightarrow> Inl e
      | Inr text_features \<Rightarrow>
     (case predict K model text_features of
        Inl e \<Rightarrow> Inl e
      | Inr predictions \<Rightarrow>
     (case py_getitem predictions 0 of
        Inl e \<Rightarrow> Inl e
      | Inr prediction_code' \<Rightarrow>
     (case predict_proba K model text_features of
        Inl e \<Rightarrow> Inl e
      | Inr rows \<Rightarrow>
     (case py_getitem rows 0 of
        Inl e \<Rightarrow> Inl e
      | Inr probabilities' \<Rightarrow>
     (case py_int K prediction_code' of
        Inl e \<Rightarrow> Inl e
      | Inr index \<Rightarrow>
     (case py_getitem probabilities' index of
        Inl e \<Rightarrow> Inl e
      | Inr confidence_score' \<Rightarrow>
     (let result = (if py_eq_1 K prediction_code' then ''Fraudulent (Fake)''
                    else ''Non-Fraudulent (Real)'') in
     (case py_int K prediction_code' of
        Inl e \<Rightarrow> Inl e
      | Inr code \<Rightarrow>
     (case py_getitem probabilities' 0 of
        Inl e \<Rightarrow> Inl e
      | Inr p0 \<Rightarrow>
     (case py_getitem probabilities' 1 of
        Inl e \<Rightarrow> Inl e
      | Inr p1 \<Rightarrow>
         Inr \<lparr> prediction_label = result,
               prediction_code = code,
               confidence_score = confidence_score',
               probabilities = \<lparr> non_fraudulent = p0, fraudulent = p1 \<rparr>,
               input_text_length = length (job_description data),
               cleaned_text_length = length cleaned_text,
               model_used = model_label data \<rparr>))))))))))))"

definition predict_fraud ::
  "'c text_env \<Rightarrow> ('a, 'c, 'f, 'l) sklearn \<Rightarrow> 'a artifact_store \<Rightarrow> 'a cache_state \<Rightarrow>
   'c PredictionRequest \<Rightarrow> (py_exc + PredictionResponse) \<times> 'a cache_state" where
  "predict_fraud E K S st data =
     (case load_model_and_vectorizer S st (model_label data) of
        (Inl e, st') \<Rightarrow> (Inl (load_error_response e), st')
      | (Inr (model, vectorizer), st') \<Rightarrow> (predict_with E K model vectorizer data, st'))"

text \<open>
  A class code is the index of the larger of two probabilities when it is 0 or 1 and the
  probability at the other index is not larger.
\<close>

definition is_index_of_larger :: "int \<Rightarrow> real \<Rightarrow> real \<Rightarrow> bool" where
  "is_index_of_larger code p0 p1 = ((code = 0 \<and> p1 \<le> p0) \<or> (code = 1 \<and> p0 \<le> p1))"

text \<open>
  What the specification (sections 3 and 4.3, steps 4 to 6) takes the classifiers in scope
  to do, document by document: the predicted label is an integer class code, so that
  \<^verbatim>\<open>int\<close> gives it back and \<^verbatim>\<open>== 1\<close> holds exactly of the code 1; the probability row has
  two entries; and the code is the index of the larger one, the decision rule of a binary
  classifier.
\<close>

definition agrees_with_row :: "('a, 'c, 'f, 'l) sklearn \<Rightarrow> 'l \<Rightarrow> real list \<Rightarrow> bool" where
  "agrees_with_row K v row =
     (\<exists>code p0 p1. py_int K v = Inr code \<and> py_eq_1 K v = (code = 1) \<and>
        row = [p0, p1] \<and> is_index_of_larger code p0 p1)"

definition classifier_contract :: "('a, 'c, 'f, 'l) sklearn \<Rightarrow> bool" where
  "classifier_contract K =
     (\<forall>model features predictions rows.
        predict K model features = Inr predictions \<and>
        predict_proba K model features = Inr rows \<longrightarrow>
        list_all2 (agrees_with_row K) predictions rows)"

subsection \<open>A store and objects to run the endpoint on\<close>

text \<open>
  Loaded objects are numbers here. The store \<open>demo_store\<close> holds the files of the label
  \<^verbatim>\<open>nb_bow\<close> only; \<open>broken_store\<close> holds a model file that cannot be unpickled, and
  \<open>full_store\<close> holds every file. Class labels are integers or floats, with Python's
  \<^verbatim>\<open>int\<close> (truncation towards zero) and \<^verbatim>\<open>== 1\<close> on them. The classifier of
  \<open>demo_sklearn\<close> predicts the class 1 with the probabilities 0.2 and 0.8; the one of
  \<open>fractional_sklearn\<close> was trained on the labels 0.5 and 1.5 and predicts 1.5.
\<close>

definition demo_store :: "nat artifact_store" where
  "demo_store =
     \<lparr> MODEL_ASSETS_DIR = ''/app/model_assets'',
       joblib_load = (\<lambda>path.
         if path = ''/app/model_assets/nb_model_bow.joblib'' then Inr 1
         else if path = ''/app/model_assets/bow_vectorizer.joblib'' then Inr 2
         else Inl (FileNotFoundError ''[Errno 2] No such file or directory'')) \<rparr>"

definition broken_store :: "nat artifact_store" where
  "broken_store =
     \<lparr> MODEL_ASSETS_DIR = ''/app/model_assets'',
       joblib_load = (\<lambda>path.
         if path = ''/app/model_assets/nb_model_bow.joblib''
         then Inl (OtherException ''invalid load key'')
         else if path = ''/app/model_assets/bow_vectorizer.joblib'' then Inr 2
         else Inl (FileNotFoundError ''[Errno 2] No such file or directory'')) \<rparr>"

definition full_store :: "nat artifact_store" where
  "full_store =
     \<lparr> MODEL_ASSETS_DIR = ''/app/model_assets'',
       joblib_load = (\<lambda>path. Inr (length path)) \<rparr>"

text \<open>The state after the first resolution of \<^verbatim>\<open>nb_bow\<close> on \<open>demo_store\<close>.\<close>

definition demo_state :: "nat cache_state" where
  "demo_state = snd (load_model_and_vectorizer demo_store initial_state (Some ''nb_bow''))"





datatype class_value = IntValue int | FloatValue real

fun class_value_int :: "class_value \<Rightarrow> py_exc + int" where
  "class_value_int (IntValue c) = Inr c"
| "class_value_int (FloatValue f) = Inr (if f < 0 then \<lceil>f\<rceil> else \<lfloor>f\<rfloor>)"

fun class_value_eq_1 :: "class_value \<Rightarrow> bool" where
  "class_value_eq_1 (IntValue c) = (c = 1)"
| "class_value_eq_1 (FloatValue f) = (f = 1)"

definition demo_sklearn :: "(nat, char, nat, class_value) sklearn" where
  "demo_sklearn =
     \<lparr> transform = (\<lambda>vectorizer docs. Inr (length docs)),
       predict = (\<lambda>model features. Inr (replicate features (IntValue 1))),
       predict_proba = (\<lambda>model features. Inr (replicate features [0.2, 0.8])),
       py_int = class_value_int,
       py_eq_1 = class_value_eq_1 \<rparr>"

definition fractional_sklearn :: "(nat, char, nat, class_value) sklearn" where
  "fractional_sklearn =
     \<lparr> transform = (\<lambda>vectorizer docs. Inr (length docs)),
       predict = (\<lambda>model features. Inr (replicate features (FloatValue 1.5))),
       predict_proba = (\<lambda>model features. Inr (replicate features [0.2, 0.8])),
       py_int = class_value_int,
       py_eq_1 = class_value_eq_1 \<rparr>"

definition demo_request :: "char PredictionRequest" where
  "demo_request = PredictionRequest_init ''The Cans, will  rust!'' (Given ''nb_bow'')"

text \<open>
  The responses of the endpoint to \<open>demo_request\<close> with the classifier of
  \<open>demo_sklearn\<close> and with the one of \<open>fractional_sklearn\<close>.
\<close>

definition demo_response :: PredictionResponse where
  "demo_response =
     \<lparr> prediction_label = ''Fraudulent (Fake)'', prediction_code = 1, confidence_score = 0.8,
       probabilities = \<lparr> non_fraudulent = 0.2, fraudulent = 0.8 \<rparr>,
       input_text_length = 21, cleaned_text_length = 8, model_used = Some ''nb_bow'' \<rparr>"

definition fractional_response :: PredictionResponse where
  "fractional_response =
     \<lparr> prediction_label = ''Non-Fraudulent (Real)'', prediction_code = 1, confidence_score = 0.8,
       probabilities = \<lparr> non_fraudulent = 0.2, fraudulent = 0.8 \<rparr>,
       input_text_length = 21, cleaned_text_length = 8, model_used = Some ''nb_bow'' \<rparr>"

section \<open>Properties of the normaliser\<close>

lemma punctuation_remover_single: "punctuation_remover E [s] = [re_sub_punct E s]"
  by simp

lemma py_getitem_head: "py_getitem (x # xs) 0 = Inr x"
  by (simp add: py_getitem_def)

lemma spec_strip_punctuation_filter: "spec_strip_punctuation E s = re_sub_punct E s"
  by (induction s) (simp_all add: re_sub_punct_def)

lemma spec_drop_or_lemma_comprehension:
  "spec_drop_or_lemma E ts = map (lemmatize E) (filter (\<lambda>word. word \<notin> stop_words E) ts)"
  by (induction ts) simp_all

lemma preprocess_text_nonempty:
  "s \<noteq> [] \<Longrightarrow>
   preprocess_text E (PyStr s) =
     Inr (str_join [space_char E]
           (map (lemmatize E) (filter (\<lambda>word. word \<notin> stop_words E)
             (word_tokenize E (str_strip E (re_sub_spaces E (re_sub_punct E (str_lower E s))))))))"
  by (simp add: preprocess_text_def py_getitem_head)

lemma preprocess_text_empty: "preprocess_text E (PyStr []) = Inr []"
  by (simp add: preprocess_text_def)

lemma spec_collapse_in_run:
  "spec_collapse E True cs = spec_collapse E False (dropWhile (re_space E) cs)"
  by (induction cs) simp_all

lemma spec_collapse_re_sub_spaces: "spec_collapse E False s = re_sub_spaces E s"
  by (induction E s rule: re_sub_spaces.induct) (simp_all add: spec_collapse_in_run)

lemma spec_trim_leading_dropWhile: "spec_trim_leading E s = dropWhile (re_space E) s"
  by (induction s) simp_all

lemma spec_trim_trailing_rev:
  "spec_trim_trailing E s = rev (dropWhile (re_space E) (rev s))"
proof (induction s)
  case Nil
  then show ?case by simp
next
  case (Cons c cs)
  show ?case
  proof (cases "list_all (re_space E) cs")
    case True
    then have "dropWhile (re_space E) (rev cs) = []"
      by (simp add: list_all_iff)
    with Cons True show ?thesis
      by (simp add: dropWhile_append list_all_iff)
  next
    case False
    then have "dropWhile (re_space E) (rev cs) \<noteq> []"
      by (simp add: list_all_iff)
    with Cons False show ?thesis
      by (auto simp: dropWhile_append list_all_iff)
  qed
qed

lemma spec_collapse_trim_code:
  "spec_collapse_trim E s = str_strip E (re_sub_spaces E s)"
  by (simp add: spec_collapse_trim_def str_strip_def spec_collapse_re_sub_spaces
      spec_trim_leading_dropWhile spec_trim_trailing_rev)

lemma spec_join_str_join: "spec_join E ts = str_join [space_char E] ts"
proof (induction ts)
  case Nil
  then show ?case by simp
next
  case (Cons t ts)
  then show ?case by (cases ts) simp_all
qed

lemma spec_normalize_unfold:
  "spec_normalize E s =
     str_join [space_char E]
       (map (lemmatize E) (filter (\<lambda>word. word \<notin> stop_words E)
         (word_tokenize E (str_strip E (re_sub_spaces E (re_sub_punct E (str_lower E s)))))))"
  by (simp add: spec_normalize_def spec_collapse_trim_code spec_case_fold_def
      spec_join_str_join spec_strip_punctuation_filter spec_drop_or_lemma_comprehension)

lemma re_sub_spaces_Nil: "re_sub_spaces E [] = []"
  by simp

lemma str_strip_Nil: "str_strip E [] = []"
  by (simp add: str_strip_def)

lemma spec_normalize_empty:
  assumes "str_lower E [] = []" and "word_tokenize E [] = []"
  shows "spec_normalize E [] = []"
  using assms by (simp add: spec_normalize_unfold re_sub_punct_def str_strip_Nil)

text \<open>
  Claim C1. For every string, \<^verbatim>\<open>preprocess_text\<close> returns what the steps of the
  specification compute in the specification's order: case folding, removal of every
  character that is neither a word character nor whitespace, collapse of whitespace runs
  and trimming, tokenization, per token either dropping a stop word or taking its noun
  lemma, and joining with one space. On a non-empty string the code runs these steps;
  the empty string it answers directly with the empty string, which is what the steps give
  when case folding and tokenizing the empty string give nothing, as \<^verbatim>\<open>str.lower\<close> and
  NLTK's \<^verbatim>\<open>word_tokenize\<close> do.
\<close>

theorem preprocess_text_steps:
  assumes "s = [] \<longrightarrow> str_lower E [] = [] \<and> word_tokenize E [] = []"
  shows "preprocess_text E (PyStr s) = Inr (spec_normalize E s)"
proof (cases "s = []")
  case True
  with assms have "spec_normalize E [] = []"
    by (simp add: spec_normalize_empty)
  with True show ?thesis
    by (simp add: preprocess_text_empty)
next
  case False
  from preprocess_text_nonempty [OF False, of E] show ?thesis
    by (simp only: spec_normalize_unfold)
qed

theorem preprocess_text_steps_witness:
  "''The Cans, will  rust!'' \<noteq> [] \<and>
   preprocess_text ascii_env (PyStr ''The Cans, will  rust!'') =
     Inr (spec_normalize ascii_env ''The Cans, will  rust!'') \<and>
   spec_normalize ascii_env ''The Cans, will  rust!'' = ''can rust'' \<and>
   str_lower ascii_env [] = [] \<and> word_tokenize ascii_env [] = [] \<and>
   preprocess_text ascii_env (PyStr []) = Inr (spec_normalize ascii_env [])"
proof -
  have h1: "''The Cans, will  rust!'' = [] \<longrightarrow>
      str_lower ascii_env [] = [] \<and> word_tokenize ascii_env [] = []"
    by simp
  have e: "str_lower ascii_env [] = [] \<and> word_tokenize ascii_env [] = []"
    by (simp add: ascii_env_def)
  then have h2: "([]::string) = [] \<longrightarrow>
      str_lower ascii_env [] = [] \<and> word_tokenize ascii_env [] = []"
    by simp
  have v: "spec_normalize ascii_env ''The Cans, will  rust!'' = ''can rust''"
    by code_simp
  from preprocess_text_steps [OF h1] preprocess_text_steps [OF h2] e v
  show ?thesis by simp
qed

subsection \<open>Totality\<close>

lemma preprocess_text_None: "preprocess_text E PyNone = Inr []"
  by (simp add: preprocess_text_def)

lemma preprocess_text_PyInt: "preprocess_text E (PyInt n) = Inr []"
  by (simp add: preprocess_text_def)

lemma re_sub_punct_punctuation_only:
  "punctuation_only E s \<Longrightarrow> re_sub_punct E s = []"
  by (induction s) (simp_all add: punctuation_only_def re_sub_punct_def)

lemma preprocess_text_punctuation:
  assumes tok: "word_tokenize E [] = []"
    and low: "lower_keeps_punctuation E"
    and punct: "punctuation_only E s"
  shows "preprocess_text E (PyStr s) = Inr []"
proof (cases "s = []")
  case True
  then show ?thesis by (simp add: preprocess_text_empty)
next
  case False
  from low punct have "punctuation_only E (str_lower E s)"
    by (simp add: lower_keeps_punctuation_def)
  then have "re_sub_punct E (str_lower E s) = []"
    by (rule re_sub_punct_punctuation_only)
  with tok preprocess_text_nonempty [OF False, of E] show ?thesis
    by (simp add: str_strip_Nil)
qed

lemma preprocess_text_returns: "\<exists>r. preprocess_text E v = Inr r"
proof (cases v)
  case PyNone
  then show ?thesis by (simp add: preprocess_text_None)
next
  case (PyStr s)
  then show ?thesis
    by (cases "s = []") (simp_all add: preprocess_text_empty preprocess_text_nonempty)
next
  case (PyInt n)
  then show ?thesis by (simp add: preprocess_text_PyInt)
qed

lemma ascii_lower_char_punct:
  "\<not> ascii_word c \<Longrightarrow> ascii_lower_char c = c"
  by (auto simp: ascii_word_def ascii_lower_char_def Let_def)

lemma ascii_lower_keeps_punctuation: "lower_keeps_punctuation ascii_env"
proof -
  have "list_all (\<lambda>c. \<not> ascii_word c \<and> \<not> ascii_space c) s \<Longrightarrow>
        map ascii_lower_char s = s" for s
    by (induction s) (simp_all add: ascii_lower_char_punct)
  then show ?thesis
    by (simp add: lower_keeps_punctuation_def punctuation_only_def ascii_env_def)
qed

text \<open>
  Claim C6. \<^verbatim>\<open>preprocess_text\<close> never raises: every argument, string or not, gives a
  result. \<^verbatim>\<open>None\<close>, a value that is not a string and the empty string give the empty
  string. A string made only of punctuation gives the empty string too, given that
  \<^verbatim>\<open>str.lower\<close> maps punctuation to punctuation and that the tokenizer finds no token
  in the empty string.
\<close>

theorem preprocess_text_total:
  "preprocess_text E PyNone = Inr [] \<and>
   preprocess_text E (PyInt n) = Inr [] \<and>
   preprocess_text E (PyStr []) = Inr [] \<and>
   (word_tokenize E [] = [] \<and> lower_keeps_punctuation E \<and> punctuation_only E s \<longrightarrow>
      preprocess_text E (PyStr s) = Inr []) \<and>
   (\<exists>r. preprocess_text E v = Inr r)"
  using preprocess_text_None [of E] preprocess_text_PyInt [of E n]
    preprocess_text_empty [of E] preprocess_text_punctuation [of E s]
    preprocess_text_returns [of E v]
  by blast

theorem preprocess_text_total_witness:
  "word_tokenize ascii_env [] = [] \<and> lower_keeps_punctuation ascii_env \<and>
   punctuation_only ascii_env ''?!.. $'' = False \<and>
   punctuation_only ascii_env ''?!..$#'' \<and>
   preprocess_text ascii_env (PyStr ''?!..$#'') = Inr []"
proof -
  have t: "word_tokenize ascii_env [] = []"
    by (simp add: ascii_env_def)
  have p: "punctuation_only ascii_env ''?!..$#''"
    by code_simp
  have q: "punctuation_only ascii_env ''?!.. $'' = False"
    by code_simp
  from preprocess_text_total [of ascii_env 0 "''?!..$#''" PyNone]
    t ascii_lower_keeps_punctuation p q
  show ?thesis by blast
qed

subsection \<open>Normalising a normalised text\<close>

lemma preprocess_text_surviving:
  "s \<noteq> [] \<Longrightarrow>
   preprocess_text E (PyStr s) = Inr (str_join [space_char E] (surviving_lemmas E s))"
  by (simp add: preprocess_text_nonempty surviving_lemmas_def)

lemma re_sub_punct_id:
  "list_all (\<lambda>c. re_word E c \<or> re_space E c) s \<Longrightarrow> re_sub_punct E s = s"
  by (induction s) (simp_all add: re_sub_punct_def)

lemma re_sub_spaces_append:
  "list_all (\<lambda>c. \<not> re_space E c) t \<Longrightarrow>
   re_sub_spaces E (t @ r) = t @ re_sub_spaces E r"
  by (induction t) simp_all

lemma re_sub_spaces_word:
  "list_all (\<lambda>c. \<not> re_space E c) t \<Longrightarrow> re_sub_spaces E t = t"
  using re_sub_spaces_append [of E t "[]"] by simp

lemma plain_word_no_space:
  "plain_word E t \<Longrightarrow> list_all (\<lambda>c. \<not> re_space E c) t"
  by (simp add: plain_word_def list_all_iff)

lemma plain_word_kept:
  "plain_word E t \<Longrightarrow> list_all (\<lambda>c. re_word E c \<or> re_space E c) t"
  by (simp add: plain_word_def list_all_iff)

lemma plain_word_hd: "plain_word E t \<Longrightarrow> \<not> re_space E (hd t)"
  by (cases t) (simp_all add: plain_word_def)

lemma plain_word_last: "plain_word E t \<Longrightarrow> \<not> re_space E (last t)"
  by (auto simp: plain_word_def list_all_iff)

lemma str_join_Cons_hd:
  "t \<noteq> [] \<Longrightarrow> \<exists>r. str_join sep (t # ts) = hd t # r"
  by (cases ts; cases t) simp_all

lemma str_join_eq_Nil:
  "list_all (\<lambda>t. t \<noteq> []) ts \<Longrightarrow> str_join sep ts = [] \<Longrightarrow> ts = []"
  by (induction sep ts rule: str_join.induct) simp_all

lemma str_join_last:
  "list_all (\<lambda>t. t \<noteq> []) ts \<Longrightarrow> ts \<noteq> [] \<Longrightarrow>
   last (str_join sep ts) = last (last ts)"
proof (induction sep ts rule: str_join.induct)
  case (3 sep t u ts)
  from "3.prems" have ne: "str_join sep (u # ts) \<noteq> []"
    using str_join_eq_Nil [of "u # ts" sep] by auto
  from "3.prems" have "last (str_join sep (u # ts)) = last (last (u # ts))"
    by (intro "3.IH") simp_all
  with ne show ?case by simp
qed simp_all

lemma dropWhile_hd_id: "xs = [] \<or> \<not> P (hd xs) \<Longrightarrow> dropWhile P xs = xs"
  by (cases xs) auto

lemma str_strip_id:
  "s \<noteq> [] \<Longrightarrow> \<not> re_space E (hd s) \<Longrightarrow> \<not> re_space E (last s) \<Longrightarrow> str_strip E s = s"
  by (simp add: str_strip_def dropWhile_hd_id hd_rev)

lemma re_sub_punct_join:
  "re_space E (space_char E) \<Longrightarrow> list_all (plain_word E) ts \<Longrightarrow>
   re_sub_punct E (str_join [space_char E] ts) = str_join [space_char E] ts"
proof (rule re_sub_punct_id, induction "[space_char E]" ts rule: str_join.induct)
  case (2 t)
  then show ?case by (simp add: plain_word_kept)
next
  case (3 t u ts)
  then show ?case by (simp add: plain_word_kept)
qed simp

lemma re_sub_spaces_join:
  "re_space E (space_char E) \<Longrightarrow> list_all (plain_word E) ts \<Longrightarrow>
   re_sub_spaces E (str_join [space_char E] ts) = str_join [space_char E] ts"
proof (induction "[space_char E]" ts rule: str_join.induct)
  case (2 t)
  then show ?case by (simp add: re_sub_spaces_word plain_word_no_space)
next
  case (3 t u ts)
  from "3.prems" have u: "plain_word E u" and t: "plain_word E t" by simp_all
  from u have "u \<noteq> []" by (simp add: plain_word_def)
  then obtain r where r: "str_join [space_char E] (u # ts) = hd u # r"
    using str_join_Cons_hd by blast
  from u have "\<not> re_space E (hd u)" by (rule plain_word_hd)
  with r have dw: "dropWhile (re_space E) (str_join [space_char E] (u # ts)) =
      str_join [space_char E] (u # ts)"
    by simp
  from "3.prems" have ih: "re_sub_spaces E (str_join [space_char E] (u # ts)) =
      str_join [space_char E] (u # ts)"
    by (intro "3.hyps") simp_all
  have "re_sub_spaces E (str_join [space_char E] (t # u # ts)) =
      t @ re_sub_spaces E (space_char E # str_join [space_char E] (u # ts))"
    using t by (simp add: re_sub_spaces_append plain_word_no_space)
  also have "\<dots> = t @ space_char E # str_join [space_char E] (u # ts)"
    using "3.prems"(1) dw ih by simp
  finally show ?case by simp
qed simp

lemma str_strip_join:
  assumes "list_all (plain_word E) ts"
  shows "str_strip E (str_join [space_char E] ts) = str_join [space_char E] ts"
proof (cases ts)
  case Nil
  then show ?thesis by (simp add: str_strip_Nil)
next
  case (Cons t ts')
  from assms have ne: "list_all (\<lambda>t. t \<noteq> []) ts"
    by (simp add: list_all_iff plain_word_def)
  from assms Cons have t: "plain_word E t" by simp
  then have "t \<noteq> []" by (simp add: plain_word_def)
  then obtain r where r: "str_join [space_char E] (t # ts') = hd t # r"
    using str_join_Cons_hd by blast
  from assms Cons have "plain_word E (last ts)"
    by (simp add: list_all_iff)
  then have "\<not> re_space E (last (last ts))" by (rule plain_word_last)
  with ne Cons have l: "\<not> re_space E (last (str_join [space_char E] ts))"
    by (simp add: str_join_last)
  from t have "\<not> re_space E (hd t)" by (rule plain_word_hd)
  with r l Cons show ?thesis
    by (simp add: str_strip_id)
qed

lemma stable_tokens_fixed:
  "list_all (\<lambda>t. plain_word E t \<and> t \<notin> stop_words E \<and> lemmatize E t = t) ts \<Longrightarrow>
   map (lemmatize E) (filter (\<lambda>word. word \<notin> stop_words E) ts) = ts"
  by (induction ts) simp_all

lemma surviving_lemmas_stable:
  assumes "stable_tokens E ts"
  shows "surviving_lemmas E (str_join [space_char E] ts) = ts"
proof -
  from assms have sp: "re_space E (space_char E)"
    and pl: "list_all (plain_word E) ts"
    and fx: "list_all (\<lambda>t. plain_word E t \<and> t \<notin> stop_words E \<and> lemmatize E t = t) ts"
    and lo: "str_lower E (str_join [space_char E] ts) = str_join [space_char E] ts"
    and tk: "word_tokenize E (str_join [space_char E] ts) = ts"
    by (simp_all add: stable_tokens_def list_all_iff)
  show ?thesis
    by (simp add: surviving_lemmas_def lo re_sub_punct_join [OF sp pl]
        re_sub_spaces_join [OF sp pl] str_strip_join [OF pl] tk stable_tokens_fixed [OF fx])
qed

lemma preprocess_text_stable:
  assumes "stable_tokens E ts"
  shows "preprocess_text E (PyStr (str_join [space_char E] ts)) =
         Inr (str_join [space_char E] ts)"
proof (cases "str_join [space_char E] ts = []")
  case True
  then show ?thesis by (simp add: preprocess_text_empty)
next
  case False
  then show ?thesis
    by (simp add: preprocess_text_surviving surviving_lemmas_stable [OF assms])
qed

text \<open>
  Claim C7, as stated: normalising twice gives what normalising once gives, for every
  string. It fails where a lemma is a stop word: \<^verbatim>\<open>cans\<close> is normalised to its lemma
  \<^verbatim>\<open>can\<close>, and \<^verbatim>\<open>can\<close>, a stop word, is normalised to the empty string.
\<close>

theorem preprocess_text_idempotent_counterexample:
  "preprocess_text ascii_env (PyStr ''cans'') = Inr ''can'' \<and>
   preprocess_text ascii_env (PyStr ''can'') = Inr [] \<and>
   preprocess_text ascii_env (PyStr ''can'') \<noteq> Inr ''can''"
proof -
  have a: "preprocess_text ascii_env (PyStr ''cans'') = Inr ''can''"
    by code_simp
  have b: "preprocess_text ascii_env (PyStr ''can'') = Inr []"
    by code_simp
  from a b show ?thesis by simp
qed

text \<open>
  Claim C7, amended. Normalising a normalised text gives the same text whenever the
  lemmas that the first normalisation joined are stable: each is a non-empty run of word
  characters, is not a stop word and is its own lemma, and their joined text is left as it
  is by case folding and split into the same tokens by the tokenizer.
\<close>

theorem preprocess_text_idempotent:
  assumes "preprocess_text E (PyStr x) = Inr y"
    and "stable_tokens E (surviving_lemmas E x)"
  shows "preprocess_text E (PyStr y) = Inr y"
proof (cases "x = []")
  case True
  with assms(1) have "y = []" by (simp add: preprocess_text_empty)
  then show ?thesis by (simp add: preprocess_text_empty)
next
  case False
  with assms(1) have "y = str_join [space_char E] (surviving_lemmas E x)"
    by (simp add: preprocess_text_surviving)
  with assms(2) show ?thesis by (simp add: preprocess_text_stable)
qed

theorem preprocess_text_idempotent_witness:
  "preprocess_text ascii_env (PyStr ''The Dog, will  rust!'') = Inr ''dog rust'' \<and>
   surviving_lemmas ascii_env ''The Dog, will  rust!'' = [''dog'', ''rust''] \<and>
   stable_tokens ascii_env [''dog'', ''rust''] \<and>
   preprocess_text ascii_env (PyStr ''dog rust'') = Inr ''dog rust''"
proof -
  have a: "preprocess_text ascii_env (PyStr ''The Dog, will  rust!'') = Inr ''dog rust''"
    by code_simp
  have b: "surviving_lemmas ascii_env ''The Dog, will  rust!'' = [''dog'', ''rust'']"
    by code_simp
  have c: "stable_tokens ascii_env [''dog'', ''rust'']"
    by code_simp
  from c b have d: "stable_tokens ascii_env (surviving_lemmas ascii_env ''The Dog, will  rust!'')"
    by simp
  from preprocess_text_idempotent [OF a d] a b c show ?thesis by simp
qed

section \<open>Properties of the artifact cache\<close>

lemma registered_map_of:
  "registered label \<longleftrightarrow> (\<exists>l mf vf. label = Some l \<and> map_of MODEL_CONFIG l = Some (mf, vf))"
proof (cases label)
  case None
  then show ?thesis by simp
next
  case (Some l)
  have "l \<in> set MODEL_CONFIG_keys \<longleftrightarrow> map_of MODEL_CONFIG l \<noteq> None"
    by (simp add: MODEL_CONFIG_keys_def map_of_eq_None_iff)
  with Some show ?thesis by auto
qed

lemma load_unknown:
  "\<not> registered label \<Longrightarrow>
   load_model_and_vectorizer S st label = (Inl (ValueError (unknown_label_message label)), st)"
  by (cases label)
     (auto simp: load_model_and_vectorizer_def registered_map_of split: option.splits)

lemma load_hit:
  "map_of MODEL_CONFIG l = Some (mf, vf) \<Longrightarrow> model_cache st l = Some m \<Longrightarrow>
   vectorizer_cache st l = Some v \<Longrightarrow>
   load_model_and_vectorizer S st (Some l) = (Inr (m, v), st)"
  by (simp add: load_model_and_vectorizer_def)

lemma load_success_cached:
  assumes "load_model_and_vectorizer S st label = (Inr pair, st1)"
  shows "\<exists>l mf vf. label = Some l \<and> map_of MODEL_CONFIG l = Some (mf, vf) \<and>
           model_cache st1 l = Some (fst pair) \<and> vectorizer_cache st1 l = Some (snd pair)"
  using assms
  by (auto simp: load_model_and_vectorizer_def Let_def
      split: option.splits sum.splits prod.splits)

lemma load_keeps_entries:
  assumes "model_cache st l = Some m" and "vectorizer_cache st l = Some v"
  shows "model_cache (snd (load_model_and_vectorizer S st label)) l = Some m \<and>
         vectorizer_cache (snd (load_model_and_vectorizer S st label)) l = Some v"
  using assms
  by (auto simp: load_model_and_vectorizer_def Let_def
      split: option.splits sum.splits prod.splits)

lemma resolutions_keep_entries:
  "model_cache st l = Some m \<Longrightarrow> vectorizer_cache st l = Some v \<Longrightarrow>
   model_cache (resolutions st calls) l = Some m \<and>
   vectorizer_cache (resolutions st calls) l = Some v"
proof (induction calls arbitrary: st)
  case Nil
  then show ?case by simp
next
  case (Cons c calls)
  obtain S label where c: "c = (S, label)" by (cases c)
  from Cons.prems load_keeps_entries [of st l m v S label]
  have "model_cache (snd (load_model_and_vectorizer S st label)) l = Some m"
    and "vectorizer_cache (snd (load_model_and_vectorizer S st label)) l = Some v"
    by simp_all
  then show ?case using c by (simp add: Cons.IH)
qed

lemma load_same_keys:
  "dom (model_cache st) = dom (vectorizer_cache st) \<Longrightarrow>
   dom (model_cache (snd (load_model_and_vectorizer S st label))) =
   dom (vectorizer_cache (snd (load_model_and_vectorizer S st label)))"
  by (auto simp: load_model_and_vectorizer_def Let_def
      split: option.splits sum.splits prod.splits)

lemma load_both_or_neither:
  "load_model_and_vectorizer S st label = (r, st') \<Longrightarrow>
   (model_cache st' = model_cache st \<and> vectorizer_cache st' = vectorizer_cache st) \<or>
   (\<exists>l m v. label = Some l \<and> r = Inr (m, v) \<and>
      model_cache st' = (model_cache st)(l \<mapsto> m) \<and>
      vectorizer_cache st' = (vectorizer_cache st)(l \<mapsto> v))"
  by (auto simp: load_model_and_vectorizer_def Let_def
      split: option.splits sum.splits prod.splits)

lemma load_hit_only_if_cached:
  "load_model_and_vectorizer S st label = (Inr pair, st') \<Longrightarrow> load_log st' = load_log st \<Longrightarrow>
   \<exists>l. label = Some l \<and> l \<in> dom (model_cache st) \<and> l \<in> dom (vectorizer_cache st)"
  by (auto simp: load_model_and_vectorizer_def Let_def
      split: option.splits sum.splits prod.splits)


lemma sublist_append_right: "sublist xs zs \<Longrightarrow> sublist xs (ys @ zs)"
  unfolding sublist_def by (metis append.assoc)

lemma sublist_append_left: "sublist xs ys \<Longrightarrow> sublist xs (ys @ zs)"
  unfolding sublist_def by (metis append.assoc)

lemma sublist_str_join: "x \<in> set xs \<Longrightarrow> sublist x (str_join sep xs)"
proof (induction sep xs rule: str_join.induct)
  case (3 sep t u ts)
  show ?case
  proof (cases "x = t")
    case True
    then show ?thesis by simp
  next
    case False
    with "3.prems" have "sublist x (str_join sep (u # ts))"
      by (intro "3.IH") simp
    then show ?thesis
      by (simp add: sublist_append_right)
  qed
qed simp_all

lemma message_lists_keys:
  "list_all (\<lambda>k. sublist (py_quote k) (unknown_label_message label)) MODEL_CONFIG_keys"
proof -
  have "sublist (py_quote k) (unknown_label_message label)" if "k \<in> set MODEL_CONFIG_keys" for k
  proof -
    from that have "sublist (py_quote k) (str_join '', '' (map py_quote MODEL_CONFIG_keys))"
      by (intro sublist_str_join) simp
    then have "sublist (py_quote k) (py_repr_list MODEL_CONFIG_keys)"
      unfolding py_repr_list_def
      by (intro sublist_append_right sublist_append_left)
    then show ?thesis
      unfolding unknown_label_message_def
      by (intro sublist_append_right)
  qed
  then show ?thesis by (simp add: list_all_iff)
qed

text \<open>
  Claim C3. A label that is not a key of the registry, \<^verbatim>\<open>None\<close> included, makes the
  resolution raise \<^verbatim>\<open>ValueError\<close> with a message that shows every key of the registry
  in quotes; the state comes back as it was, so nothing was loaded and the caches are
  unchanged.
\<close>

theorem unknown_model_rejected:
  assumes "\<not> registered label"
  shows "load_model_and_vectorizer S st label =
           (Inl (ValueError (unknown_label_message label)), st) \<and>
         list_all (\<lambda>k. sublist (py_quote k) (unknown_label_message label)) MODEL_CONFIG_keys"
  using load_unknown [OF assms] message_lists_keys by simp

theorem unknown_model_rejected_witness:
  "registered (Some ''made_up_model'') = False \<and>
   load_model_and_vectorizer demo_store initial_state (Some ''made_up_model'') =
     (Inl (ValueError (unknown_label_message (Some ''made_up_model''))), initial_state) \<and>
   unknown_label_message (Some ''made_up_model'') =
     ''Unknown model label: made_up_model. Available models: ['nb_bow', 'nb_bow_res', 'nb_tfidf', 'nb_tfidf_res', 'lr_bow', 'lr_bow_res', 'lr_tfidf', 'lr_tfidf_res']''"
proof -
  have r: "\<not> registered (Some ''made_up_model'')"
    by code_simp
  have m: "unknown_label_message (Some ''made_up_model'') =
     ''Unknown model label: made_up_model. Available models: ['nb_bow', 'nb_bow_res', 'nb_tfidf', 'nb_tfidf_res', 'lr_bow', 'lr_bow_res', 'lr_tfidf', 'lr_tfidf_res']''"
    by code_simp
  from unknown_model_rejected [OF r, of demo_store initial_state] r m
  show ?thesis by simp
qed

lemma demo_load: "load_model_and_vectorizer demo_store initial_state (Some ''nb_bow'') = (Inr (1, 2), demo_state)"
proof -
  have "fst (load_model_and_vectorizer demo_store initial_state (Some ''nb_bow'')) = Inr (1, 2)"
    by code_simp
  then show ?thesis
    unfolding demo_state_def by (metis prod.collapse)
qed

text \<open>
  Claim C4. When a resolution succeeds, the pair it returns is in the two caches under
  the label, and after any further resolutions, of any labels on any file systems, a
  resolution of the same label returns the same pair and leaves the state, the load log
  included, as it was.
\<close>

theorem resolution_memoized:
  assumes "load_model_and_vectorizer S st label = (Inr pair, st1)"
  shows "(\<exists>l. label = Some l \<and> model_cache st1 l = Some (fst pair) \<and>
              vectorizer_cache st1 l = Some (snd pair)) \<and>
         load_model_and_vectorizer S' (resolutions st1 calls) label =
           (Inr pair, resolutions st1 calls)"
proof -
  from load_success_cached [OF assms] obtain l mf vf where
    l: "label = Some l" and reg: "map_of MODEL_CONFIG l = Some (mf, vf)"
    and mc: "model_cache st1 l = Some (fst pair)"
    and vc: "vectorizer_cache st1 l = Some (snd pair)"
    by blast
  from resolutions_keep_entries [OF mc vc, of calls]
  have "load_model_and_vectorizer S' (resolutions st1 calls) (Some l) =
      (Inr (fst pair, snd pair), resolutions st1 calls)"
    by (intro load_hit [OF reg]) simp_all
  with l mc vc show ?thesis by simp
qed

theorem resolution_memoized_witness:
  "load_model_and_vectorizer demo_store initial_state (Some ''nb_bow'') = (Inr (1, 2), demo_state) \<and>
   model_cache demo_state ''nb_bow'' = Some 1 \<and> vectorizer_cache demo_state ''nb_bow'' = Some 2 \<and>
   load_model_and_vectorizer broken_store
     (resolutions demo_state [(demo_store, Some ''lr_bow''), (full_store, Some ''lr_tfidf'')])
     (Some ''nb_bow'') =
   (Inr (1, 2), resolutions demo_state [(demo_store, Some ''lr_bow''), (full_store, Some ''lr_tfidf'')])"
  using resolution_memoized [OF demo_load, of broken_store
      "[(demo_store, Some ''lr_bow''), (full_store, Some ''lr_tfidf'')]"] demo_load
  by simp

lemma load_miss_fails:
  assumes reg: "map_of MODEL_CONFIG l = Some (mf, vf)"
    and miss: "model_cache st l = None \<or> vectorizer_cache st l = None"
    and fail: "joblib_load S (path_join (MODEL_ASSETS_DIR S) mf) = Inl e \<or>
       (\<exists>m. joblib_load S (path_join (MODEL_ASSETS_DIR S) mf) = Inr m \<and>
            joblib_load S (path_join (MODEL_ASSETS_DIR S) vf) = Inl e)"
  shows "\<exists>st'. load_model_and_vectorizer S st (Some l) = (Inl (except_FileNotFoundError l e), st') \<and>
           model_cache st' = model_cache st \<and> vectorizer_cache st' = vectorizer_cache st \<and>
           prefix (load_log st @ [path_join (MODEL_ASSETS_DIR S) mf]) (load_log st')"
  using assms
  by (auto simp: load_model_and_vectorizer_def Let_def
      split: option.splits sum.splits prod.splits)

lemma load_miss_attempts:
  assumes reg: "map_of MODEL_CONFIG l = Some (mf, vf)"
    and miss: "model_cache st l = None \<or> vectorizer_cache st l = None"
  shows "prefix (load_log st @ [path_join (MODEL_ASSETS_DIR S) mf])
           (load_log (snd (load_model_and_vectorizer S st (Some l))))"
  using assms
  by (auto simp: load_model_and_vectorizer_def Let_def
      split: option.splits sum.splits prod.splits)

lemma load_miss_succeeds:
  assumes reg: "map_of MODEL_CONFIG l = Some (mf, vf)"
    and miss: "model_cache st l = None \<or> vectorizer_cache st l = None"
    and m: "joblib_load S (path_join (MODEL_ASSETS_DIR S) mf) = Inr m"
    and v: "joblib_load S (path_join (MODEL_ASSETS_DIR S) vf) = Inr v"
  shows "fst (load_model_and_vectorizer S st (Some l)) = Inr (m, v)"
  using assms
  by (auto simp: load_model_and_vectorizer_def Let_def
      split: option.splits sum.splits prod.splits)

lemma except_FileNotFoundError_cases:
  "(is_FileNotFoundError e \<longrightarrow>
      except_FileNotFoundError l e =
        FileNotFoundError (''Model assets not found for '' @ py_quote l @ '': '' @ exc_str e)) \<and>
   (\<not> is_FileNotFoundError e \<longrightarrow> except_FileNotFoundError l e = e)"
  by (cases e) simp_all

text \<open>
  Claim C5, as stated: on a miss, a file that is absent, unreadable or corrupt makes the
  resolution fail with the error for missing artifacts. Line 139 catches
  \<^verbatim>\<open>FileNotFoundError\<close> only: a model file that cannot be unpickled makes the resolution
  raise the loader's own exception, which is not the \<^verbatim>\<open>FileNotFoundError\<close> of line 140.
\<close>

theorem failed_load_counterexample:
  "registered (Some ''nb_bow'') \<and>
   model_cache (initial_state :: nat cache_state) ''nb_bow'' = None \<and>
   joblib_load broken_store ''/app/model_assets/nb_model_bow.joblib'' =
     Inl (OtherException ''invalid load key'') \<and>
   fst (load_model_and_vectorizer broken_store initial_state (Some ''nb_bow'')) =
     Inl (OtherException ''invalid load key'') \<and>
   \<not> is_FileNotFoundError (OtherException ''invalid load key'')"
proof -
  have a: "registered (Some ''nb_bow'')" by code_simp
  have b: "model_cache (initial_state :: nat cache_state) ''nb_bow'' = None"
    by (simp add: initial_state_def)
  have c: "joblib_load broken_store ''/app/model_assets/nb_model_bow.joblib'' =
     Inl (OtherException ''invalid load key'')"
    by (simp add: broken_store_def)
  have d: "fst (load_model_and_vectorizer broken_store initial_state (Some ''nb_bow'')) =
     Inl (OtherException ''invalid load key'')"
    by code_simp
  from a b c d show ?thesis by simp
qed

text \<open>
  Claim C5, amended. On a miss of a registered label, when loading the model file or,
  after it, the vectorizer file raises, the resolution raises. For an absent file it
  raises the \<^verbatim>\<open>FileNotFoundError\<close> of line 140, whose message names the label and ends
  with the message of the cause. For an exception that is neither \<^verbatim>\<open>FileNotFoundError\<close>
  nor \<^verbatim>\<open>ValueError\<close> it raises that exception itself, unchanged. Which exception it raises
  when the loader raises \<^verbatim>\<open>ValueError\<close> is not part of the statement. In every case both
  caches are left as they were, so the next resolution of the label calls the loader again,
  and returns the loaded pair when both files load then.
\<close>

theorem failed_load_not_cached:
  assumes reg: "map_of MODEL_CONFIG l = Some (mf, vf)"
    and miss: "model_cache st l = None \<or> vectorizer_cache st l = None"
    and fail: "joblib_load S (path_join (MODEL_ASSETS_DIR S) mf) = Inl e \<or>
       (\<exists>m. joblib_load S (path_join (MODEL_ASSETS_DIR S) mf) = Inr m \<and>
            joblib_load S (path_join (MODEL_ASSETS_DIR S) vf) = Inl e)"
  shows "\<exists>err st'.
      load_model_and_vectorizer S st (Some l) = (Inl err, st') \<and>
      (is_FileNotFoundError e \<longrightarrow>
         err = FileNotFoundError
                 (''Model assets not found for '' @ py_quote l @ '': '' @ exc_str e)) \<and>
      (\<not> is_FileNotFoundError e \<and> \<not> is_ValueError e \<longrightarrow> err = e) \<and>
      model_cache st' = model_cache st \<and> vectorizer_cache st' = vectorizer_cache st \<and>
      prefix (load_log st' @ [path_join (MODEL_ASSETS_DIR S') mf])
        (load_log (snd (load_model_and_vectorizer S' st' (Some l)))) \<and>
      (joblib_load S' (path_join (MODEL_ASSETS_DIR S') mf) = Inr m' \<and>
       joblib_load S' (path_join (MODEL_ASSETS_DIR S') vf) = Inr v' \<longrightarrow>
         fst (load_model_and_vectorizer S' st' (Some l)) = Inr (m', v'))"
proof -
  from load_miss_fails [OF reg miss fail] obtain st' where
    r: "load_model_and_vectorizer S st (Some l) = (Inl (except_FileNotFoundError l e), st')"
    and mc: "model_cache st' = model_cache st"
    and vc: "vectorizer_cache st' = vectorizer_cache st"
    by blast
  from miss mc vc have miss': "model_cache st' l = None \<or> vectorizer_cache st' l = None"
    by simp
  from r mc vc except_FileNotFoundError_cases [of e l]
    load_miss_attempts [OF reg miss', of S']
    load_miss_succeeds [OF reg miss', of S' m' v']
  show ?thesis by blast
qed

theorem failed_load_not_cached_witness:
  "map_of MODEL_CONFIG ''lr_bow'' = Some (''lr_model_bow.joblib'', ''bow_vectorizer.joblib'') \<and>
   model_cache (initial_state :: nat cache_state) ''lr_bow'' = None \<and>
   joblib_load demo_store (path_join (MODEL_ASSETS_DIR demo_store) ''lr_model_bow.joblib'') =
     Inl (FileNotFoundError ''[Errno 2] No such file or directory'') \<and>
   (\<exists>st'. load_model_and_vectorizer demo_store initial_state (Some ''lr_bow'') =
       (Inl (FileNotFoundError
          ''Model assets not found for 'lr_bow': [Errno 2] No such file or directory''), st') \<and>
     model_cache st' = model_cache initial_state \<and>
     vectorizer_cache st' = vectorizer_cache initial_state \<and>
     fst (load_model_and_vectorizer full_store st' (Some ''lr_bow'')) = Inr (37, 39)) \<and>
   map_of MODEL_CONFIG ''nb_bow'' = Some (''nb_model_bow.joblib'', ''bow_vectorizer.joblib'') \<and>
   model_cache (initial_state :: nat cache_state) ''nb_bow'' = None \<and>
   joblib_load broken_store (path_join (MODEL_ASSETS_DIR broken_store) ''nb_model_bow.joblib'') =
     Inl (OtherException ''invalid load key'') \<and>
   (\<exists>st'. load_model_and_vectorizer broken_store initial_state (Some ''nb_bow'') =
       (Inl (OtherException ''invalid load key''), st') \<and>
     model_cache st' = model_cache initial_state \<and>
     vectorizer_cache st' = vectorizer_cache initial_state \<and>
     fst (load_model_and_vectorizer full_store st' (Some ''nb_bow'')) = Inr (37, 39))"
proof -
  have reg: "map_of MODEL_CONFIG ''lr_bow'' =
      Some (''lr_model_bow.joblib'', ''bow_vectorizer.joblib'')"
    by code_simp
  have reg2: "map_of MODEL_CONFIG ''nb_bow'' =
      Some (''nb_model_bow.joblib'', ''bow_vectorizer.joblib'')"
    by code_simp
  have miss: "model_cache (initial_state :: nat cache_state) ''lr_bow'' = None"
    by (simp add: initial_state_def)
  then have miss': "model_cache (initial_state :: nat cache_state) ''lr_bow'' = None \<or>
      vectorizer_cache (initial_state :: nat cache_state) ''lr_bow'' = None"
    by simp
  have miss2: "model_cache (initial_state :: nat cache_state) ''nb_bow'' = None"
    by (simp add: initial_state_def)
  then have miss2': "model_cache (initial_state :: nat cache_state) ''nb_bow'' = None \<or>
      vectorizer_cache (initial_state :: nat cache_state) ''nb_bow'' = None"
    by simp
  have fail: "joblib_load demo_store
      (path_join (MODEL_ASSETS_DIR demo_store) ''lr_model_bow.joblib'') =
     Inl (FileNotFoundError ''[Errno 2] No such file or directory'')"
    by code_simp
  then have fail': "joblib_load demo_store
      (path_join (MODEL_ASSETS_DIR demo_store) ''lr_model_bow.joblib'') =
     Inl (FileNotFoundError ''[Errno 2] No such file or directory'') \<or>
     (\<exists>m. joblib_load demo_store
      (path_join (MODEL_ASSETS_DIR demo_store) ''lr_model_bow.joblib'') = Inr m \<and>
      joblib_load demo_store
      (path_join (MODEL_ASSETS_DIR demo_store) ''bow_vectorizer.joblib'') =
      Inl (FileNotFoundError ''[Errno 2] No such file or directory''))"
    by simp
  have fail2: "joblib_load broken_store
      (path_join (MODEL_ASSETS_DIR broken_store) ''nb_model_bow.joblib'') =
     Inl (OtherException ''invalid load key'')"
    by code_simp
  then have fail2': "joblib_load broken_store
      (path_join (MODEL_ASSETS_DIR broken_store) ''nb_model_bow.joblib'') =
     Inl (OtherException ''invalid load key'') \<or>
     (\<exists>m. joblib_load broken_store
      (path_join (MODEL_ASSETS_DIR broken_store) ''nb_model_bow.joblib'') = Inr m \<and>
      joblib_load broken_store
      (path_join (MODEL_ASSETS_DIR broken_store) ''bow_vectorizer.joblib'') =
      Inl (OtherException ''invalid load key''))"
    by simp
  have m: "joblib_load full_store
      (path_join (MODEL_ASSETS_DIR full_store) ''lr_model_bow.joblib'') = Inr 37"
    by code_simp
  have m2: "joblib_load full_store
      (path_join (MODEL_ASSETS_DIR full_store) ''nb_model_bow.joblib'') = Inr 37"
    by code_simp
  have v: "joblib_load full_store
      (path_join (MODEL_ASSETS_DIR full_store) ''bow_vectorizer.joblib'') = Inr 39"
    by code_simp
  have msg: "''Model assets not found for '' @ py_quote ''lr_bow'' @ '': '' @
      exc_str (FileNotFoundError ''[Errno 2] No such file or directory'') =
     ''Model assets not found for 'lr_bow': [Errno 2] No such file or directory''"
    by code_simp
  from failed_load_not_cached [OF reg miss' fail', of full_store 37 39] m v msg
  have first: "\<exists>st'. load_model_and_vectorizer demo_store initial_state (Some ''lr_bow'') =
       (Inl (FileNotFoundError
          ''Model assets not found for 'lr_bow': [Errno 2] No such file or directory''), st') \<and>
     model_cache st' = model_cache initial_state \<and>
     vectorizer_cache st' = vectorizer_cache initial_state \<and>
     fst (load_model_and_vectorizer full_store st' (Some ''lr_bow'')) = Inr (37, 39)"
    by auto
  from failed_load_not_cached [OF reg2 miss2' fail2', of full_store 37 39] m2 v
  have second: "\<exists>st'. load_model_and_vectorizer broken_store initial_state (Some ''nb_bow'') =
       (Inl (OtherException ''invalid load key''), st') \<and>
     model_cache st' = model_cache initial_state \<and>
     vectorizer_cache st' = vectorizer_cache initial_state \<and>
     fst (load_model_and_vectorizer full_store st' (Some ''nb_bow'')) = Inr (37, 39)"
    by auto
  from reg reg2 miss miss2 fail fail2 first second show ?thesis by blast
qed

lemma resolutions_same_keys:
  "dom (model_cache st) = dom (vectorizer_cache st) \<Longrightarrow>
   dom (model_cache (resolutions st calls)) = dom (vectorizer_cache (resolutions st calls))"
proof (induction calls arbitrary: st)
  case Nil
  then show ?case by simp
next
  case (Cons c calls)
  obtain S label where c: "c = (S, label)" by (cases c)
  from Cons.prems have "dom (model_cache (snd (load_model_and_vectorizer S st label))) =
      dom (vectorizer_cache (snd (load_model_and_vectorizer S st label)))"
    by (rule load_same_keys)
  then show ?case using c by (simp add: Cons.IH)
qed

lemma initial_same_keys:
  "dom (model_cache initial_state) = dom (vectorizer_cache initial_state)"
  by (simp add: initial_state_def)

lemma demo_hit:
  "load_model_and_vectorizer S demo_state (Some ''nb_bow'') = (Inr (1, 2), demo_state)"
proof -
  from load_success_cached [OF demo_load] obtain mf vf where
    "map_of MODEL_CONFIG ''nb_bow'' = Some (mf, vf)"
    "model_cache demo_state ''nb_bow'' = Some 1" "vectorizer_cache demo_state ''nb_bow'' = Some 2"
    by auto
  then show ?thesis by (rule load_hit)
qed

lemma demo_state_same_keys:
  "dom (model_cache demo_state) = dom (vectorizer_cache demo_state)"
  unfolding demo_state_def by (rule load_same_keys [OF initial_same_keys])

text \<open>
  Claim C9. The two caches hold the same keys: after any sequence of resolutions from the
  empty caches, and after one resolution from any state in which they do. A resolution
  leaves both caches as they were or stores into both under the label it resolved. A
  resolution that succeeds without a call of the loader found the label in both caches.
\<close>

theorem caches_same_keys:
  "dom (model_cache (resolutions initial_state calls)) =
     dom (vectorizer_cache (resolutions initial_state calls)) \<and>
   (dom (model_cache st) = dom (vectorizer_cache st) \<longrightarrow>
      dom (model_cache (snd (load_model_and_vectorizer S st label))) =
      dom (vectorizer_cache (snd (load_model_and_vectorizer S st label)))) \<and>
   (load_model_and_vectorizer S st label = (r, st') \<longrightarrow>
      (model_cache st' = model_cache st \<and> vectorizer_cache st' = vectorizer_cache st) \<or>
      (\<exists>l m v. label = Some l \<and> r = Inr (m, v) \<and>
         model_cache st' = (model_cache st)(l \<mapsto> m) \<and>
         vectorizer_cache st' = (vectorizer_cache st)(l \<mapsto> v))) \<and>
   (load_model_and_vectorizer S st label = (Inr pair, st') \<and> load_log st' = load_log st \<longrightarrow>
      (\<exists>l. label = Some l \<and> l \<in> dom (model_cache st) \<and> l \<in> dom (vectorizer_cache st)))"
  using resolutions_same_keys [OF initial_same_keys, of calls]
    load_same_keys [of st S label] load_both_or_neither [of S st label r st']
    load_hit_only_if_cached [of S st label pair st']
  by blast

theorem caches_same_keys_witness:
  "dom (model_cache (resolutions (initial_state :: nat cache_state)
          [(demo_store, Some ''nb_bow''), (demo_store, Some ''lr_bow'')])) =
   dom (vectorizer_cache (resolutions (initial_state :: nat cache_state)
          [(demo_store, Some ''nb_bow''), (demo_store, Some ''lr_bow'')])) \<and>
   dom (model_cache demo_state) = dom (vectorizer_cache demo_state) \<and>
   load_model_and_vectorizer broken_store demo_state (Some ''nb_bow'') =
     (Inr (1, 2), demo_state) \<and>
   load_log demo_state = load_log demo_state \<and>
   ''nb_bow'' \<in> dom (model_cache demo_state) \<and>
   ''nb_bow'' \<in> dom (vectorizer_cache demo_state)"
  using caches_same_keys [of "[(demo_store, Some ''nb_bow''), (demo_store, Some ''lr_bow'')]"
      demo_state broken_store "Some ''nb_bow''" "Inr (1, 2)" demo_state "(1, 2)"]
    demo_hit [of broken_store] demo_state_same_keys
  by auto

section \<open>Concurrent resolutions\<close>




















section \<open>Properties of the prediction endpoint\<close>

lemma predict_fraud_load_error:
  "load_model_and_vectorizer S st (model_label data) = (Inl e, st') \<Longrightarrow>
   predict_fraud E K S st data = (Inl (load_error_response e), st')"
  by (simp add: predict_fraud_def)

text \<open>
  Claim C10. The default label \<^verbatim>\<open>nb_bow\<close> stands in for an absent field only: a given
  label is kept, and \<^verbatim>\<open>null\<close> stays \<^verbatim>\<open>None\<close>. \<^verbatim>\<open>None\<close> is not a key of the registry, so
  the resolution raises the \<^verbatim>\<open>ValueError\<close> for an unknown label and the endpoint answers
  with status 400 and that message, whatever the store and the caches hold; the state is
  unchanged.
\<close>

theorem null_model_label_rejected:
  "model_label (PredictionRequest_init text Absent) = Some ''nb_bow'' \<and>
   model_label (PredictionRequest_init text (Given s)) = Some s \<and>
   model_label (PredictionRequest_init text Null) = None \<and>
   load_model_and_vectorizer S st None = (Inl (ValueError (unknown_label_message None)), st) \<and>
   predict_fraud E K S st (PredictionRequest_init text Null) =
     (Inl (HTTPException 400 (unknown_label_message None)), st) \<and>
   prefix ''Unknown model label: None. Available models: '' (unknown_label_message None)"
proof -
  have l: "load_model_and_vectorizer S st None =
      (Inl (ValueError (unknown_label_message None)), st)"
    by (rule load_unknown) simp
  have n: "model_label (PredictionRequest_init text Null) = None"
    by (simp add: PredictionRequest_init_def)
  from l n have "predict_fraud E K S st (PredictionRequest_init text Null) =
      (Inl (load_error_response (ValueError (unknown_label_message None))), st)"
    by (intro predict_fraud_load_error) simp
  with l n show ?thesis
    by (simp add: PredictionRequest_init_def unknown_label_message_def)
qed

theorem null_model_label_rejected_witness:
  "fst (predict_fraud ascii_env demo_sklearn demo_store initial_state
          (PredictionRequest_init ''The Cans, will  rust!'' Null)) =
     Inl (HTTPException 400 ''Unknown model label: None. Available models: ['nb_bow', 'nb_bow_res', 'nb_tfidf', 'nb_tfidf_res', 'lr_bow', 'lr_bow_res', 'lr_tfidf', 'lr_tfidf_res']'') \<and>
   fst (predict_fraud ascii_env demo_sklearn demo_store initial_state
          (PredictionRequest_init ''The Cans, will  rust!'' Absent)) = Inr demo_response"
proof -
  have m: "unknown_label_message None =
     ''Unknown model label: None. Available models: ['nb_bow', 'nb_bow_res', 'nb_tfidf', 'nb_tfidf_res', 'lr_bow', 'lr_bow_res', 'lr_tfidf', 'lr_tfidf_res']''"
    by code_simp
  have a: "fst (predict_fraud ascii_env demo_sklearn demo_store initial_state
          (PredictionRequest_init ''The Cans, will  rust!'' Absent)) = Inr demo_response"
    by code_simp
  from null_model_label_rejected [of "''The Cans, will  rust!''" "''x''" demo_store initial_state
      ascii_env demo_sklearn] m a
  show ?thesis by simp
qed

lemma py_getitem_0: "py_getitem xs 0 = Inr x \<Longrightarrow> \<exists>rest. xs = x # rest"
  by (cases xs) (simp_all add: py_getitem_def)

lemma py_getitem_pair_0: "py_getitem [p0, p1] 0 = Inr p0"
  by (simp add: py_getitem_def)

lemma py_getitem_pair_1: "py_getitem [p0, p1] 1 = Inr p1"
  by (simp add: py_getitem_def)

lemma py_getitem_pair:
  assumes "is_index_of_larger code p0 p1"
  shows "py_getitem [p0, p1] code = Inr (max p0 p1)"
proof -
  from assms consider "code = 0" "p1 \<le> p0" | "code = 1" "p0 \<le> p1"
    unfolding is_index_of_larger_def by blast
  then show ?thesis
  proof cases
    case 1
    then show ?thesis by (simp add: py_getitem_pair_0 max_def)
  next
    case 2
    then show ?thesis by (simp add: py_getitem_pair_1 max_def)
  qed
qed

lemma predict_with_success:
  assumes "predict_with E K model vectorizer data = Inr r"
  shows "\<exists>cleaned_text features predictions rows v probs.
      preprocess_text E (PyStr (job_description data)) = Inr cleaned_text \<and>
      transform K vectorizer [cleaned_text] = Inr features \<and>
      predict K model features = Inr predictions \<and>
      py_getitem predictions 0 = Inr v \<and>
      predict_proba K model features = Inr rows \<and>
      py_getitem rows 0 = Inr probs \<and>
      py_int K v = Inr (prediction_code r) \<and>
      py_getitem probs (prediction_code r) = Inr (confidence_score r) \<and>
      py_getitem probs 0 = Inr (non_fraudulent (probabilities r)) \<and>
      py_getitem probs 1 = Inr (fraudulent (probabilities r)) \<and>
      prediction_label r =
        (if py_eq_1 K v then ''Fraudulent (Fake)'' else ''Non-Fraudulent (Real)'') \<and>
      input_text_length r = length (job_description data) \<and>
      cleaned_text_length r = length cleaned_text \<and>
      model_used r = model_label data"
  using assms
  by (auto simp: predict_with_def Let_def split: sum.splits split del: if_split)

lemma predict_fraud_success:
  assumes "predict_fraud E K S st data = (Inr r, st')"
  shows "\<exists>model vectorizer.
      load_model_and_vectorizer S st (model_label data) = (Inr (model, vectorizer), st') \<and>
      predict_with E K model vectorizer data = Inr r"
  using assms
  by (auto simp: predict_fraud_def split: prod.splits sum.splits)

lemma classifier_contractD:
  "classifier_contract K \<Longrightarrow> predict K model features = Inr predictions \<Longrightarrow>
   predict_proba K model features = Inr rows \<Longrightarrow>
   list_all2 (agrees_with_row K) predictions rows"
  unfolding classifier_contract_def
  apply (drule spec [of _ model])
  apply (drule spec [of _ features])
  apply (drule spec [of _ predictions])
  apply (drule spec [of _ rows])
  apply simp
  done

lemma contract_first_document:
  assumes "list_all2 (agrees_with_row K) predictions rows"
    and "py_getitem predictions 0 = Inr v" and "py_getitem rows 0 = Inr probs"
  shows "agrees_with_row K v probs"
proof -
  from py_getitem_0 [OF assms(2)] obtain vs where p: "predictions = v # vs" ..
  from py_getitem_0 [OF assms(3)] obtain rs where r: "rows = probs # rs" ..
  from assms(1) show ?thesis unfolding p r by simp
qed

lemma demo_contract: "classifier_contract demo_sklearn"
proof -
  have "agrees_with_row demo_sklearn (IntValue 1) [0.2, 0.8]"
    unfolding agrees_with_row_def
    by (rule exI [of _ 1], rule exI [of _ "0.2"], rule exI [of _ "0.8"])
       (simp add: demo_sklearn_def is_index_of_larger_def)
  then have "list_all2 (agrees_with_row demo_sklearn)
      (replicate n (IntValue 1)) (replicate n [0.2, 0.8])" for n
    by (induction n) simp_all
  then show ?thesis
    unfolding classifier_contract_def by (auto simp: demo_sklearn_def)
qed

text \<open>
  Claim C2. With classifiers that keep the contract of a binary classifier (an integer
  class code, a row of two probabilities, the code the index of the larger one), every
  successful response is assembled as follows. The class code is \<^verbatim>\<open>int\<close> of the label that
  \<^verbatim>\<open>model.predict\<close> returned for the normalised text; the confidence is the entry of the
  probability row at that code; the code is the index of the larger of the two
  probabilities, so the confidence is the larger one; the label is
  \<^verbatim>\<open>Fraudulent (Fake)\<close> when the code is 1 and \<^verbatim>\<open>Non-Fraudulent (Real)\<close> otherwise; the
  response carries the two probabilities of the row, the length of the raw text, the
  length of the normalised text and the model label of the request.
\<close>

theorem predict_fraud_response:
  assumes contract: "classifier_contract K"
    and success: "predict_fraud E K S st data = (Inr r, st')"
  shows "\<exists>model vectorizer cleaned_text features predictions rows v p0 p1.
      load_model_and_vectorizer S st (model_label data) = (Inr (model, vectorizer), st') \<and>
      preprocess_text E (PyStr (job_description data)) = Inr cleaned_text \<and>
      transform K vectorizer [cleaned_text] = Inr features \<and>
      predict K model features = Inr predictions \<and>
      py_getitem predictions 0 = Inr v \<and>
      py_int K v = Inr (prediction_code r) \<and>
      predict_proba K model features = Inr rows \<and>
      py_getitem rows 0 = Inr [p0, p1] \<and>
      py_getitem [p0, p1] (prediction_code r) = Inr (confidence_score r) \<and>
      is_index_of_larger (prediction_code r) p0 p1 \<and>
      confidence_score r = max p0 p1 \<and>
      prediction_label r =
        (if prediction_code r = 1 then ''Fraudulent (Fake)'' else ''Non-Fraudulent (Real)'') \<and>
      probabilities r = \<lparr> non_fraudulent = p0, fraudulent = p1 \<rparr> \<and>
      input_text_length r = length (job_description data) \<and>
      cleaned_text_length r = length cleaned_text \<and>
      model_used r = model_label data"
proof -
  from predict_fraud_success [OF success] obtain model vectorizer where
    l: "load_model_and_vectorizer S st (model_label data) = (Inr (model, vectorizer), st')"
    and w: "predict_with E K model vectorizer data = Inr r"
    by blast
  from predict_with_success [OF w] obtain cleaned_text features predictions rows v probs where
    f: "preprocess_text E (PyStr (job_description data)) = Inr cleaned_text"
      "transform K vectorizer [cleaned_text] = Inr features"
    and pr: "predict K model features = Inr predictions"
    and v: "py_getitem predictions 0 = Inr v"
    and pp: "predict_proba K model features = Inr rows"
    and row: "py_getitem rows 0 = Inr probs"
    and code: "py_int K v = Inr (prediction_code r)"
    and c: "py_getitem probs (prediction_code r) = Inr (confidence_score r)"
    and p0: "py_getitem probs 0 = Inr (non_fraudulent (probabilities r))"
    and p1: "py_getitem probs 1 = Inr (fraudulent (probabilities r))"
    and lab: "prediction_label r =
        (if py_eq_1 K v then ''Fraudulent (Fake)'' else ''Non-Fraudulent (Real)'')"
    and g: "input_text_length r = length (job_description data)"
      "cleaned_text_length r = length cleaned_text"
      "model_used r = model_label data"
    by blast
  from contract_first_document [OF classifier_contractD [OF contract pr pp] v row] code
  obtain q0 q1 where eq1: "py_eq_1 K v = (prediction_code r = 1)"
    and probs: "probs = [q0, q1]"
    and larger: "is_index_of_larger (prediction_code r) q0 q1"
    by (auto simp: agrees_with_row_def)
  from py_getitem_pair [OF larger] c probs
  have conf: "confidence_score r = max q0 q1"
    by simp
  from p0 p1 probs
  have n: "non_fraudulent (probabilities r) = q0" and fr: "fraudulent (probabilities r) = q1"
    by (simp_all add: py_getitem_pair_0 py_getitem_pair_1)
  from n fr have rec: "probabilities r = \<lparr> non_fraudulent = q0, fraudulent = q1 \<rparr>"
    by simp
  from lab eq1 have lab': "prediction_label r =
        (if prediction_code r = 1 then ''Fraudulent (Fake)'' else ''Non-Fraudulent (Real)'')"
    by simp
  from l f pr v code pp row c probs larger conf lab' rec g show ?thesis
    by blast
qed

theorem predict_fraud_response_witness:
  "classifier_contract demo_sklearn \<and>
   predict_fraud ascii_env demo_sklearn demo_store initial_state demo_request =
     (Inr demo_response, demo_state) \<and>
   preprocess_text ascii_env (PyStr (job_description demo_request)) = Inr ''can rust'' \<and>
   cleaned_text_length demo_response = length ''can rust'' \<and>
   input_text_length demo_response = length ''The Cans, will  rust!'' \<and>
   prediction_code demo_response = 1 \<and>
   prediction_label demo_response = ''Fraudulent (Fake)'' \<and>
   probabilities demo_response = \<lparr> non_fraudulent = 0.2, fraudulent = 0.8 \<rparr> \<and>
   is_index_of_larger (prediction_code demo_response) 0.2 0.8 \<and>
   confidence_score demo_response = max 0.2 0.8 \<and>
   model_used demo_response = Some ''nb_bow''"
proof -
  have a: "fst (predict_fraud ascii_env demo_sklearn demo_store initial_state demo_request) =
      Inr demo_response"
    by code_simp
  have b: "snd (predict_fraud ascii_env demo_sklearn demo_store initial_state demo_request) =
      demo_state"
    using demo_load
    by (simp add: predict_fraud_def demo_request_def PredictionRequest_init_def)
  from a b have p: "predict_fraud ascii_env demo_sklearn demo_store initial_state demo_request =
     (Inr demo_response, demo_state)"
    by (metis prod.collapse)
  have t: "preprocess_text ascii_env (PyStr (job_description demo_request)) = Inr ''can rust''"
    by code_simp
  have j: "job_description demo_request = ''The Cans, will  rust!''"
    and ml: "model_label demo_request = Some ''nb_bow''"
    by (simp_all add: demo_request_def PredictionRequest_init_def)
  have k: "prediction_code demo_response = 1"
    by (simp add: demo_response_def)
  from predict_fraud_response [OF demo_contract p] obtain cleaned_text p0 p1 where
    c: "preprocess_text ascii_env (PyStr (job_description demo_request)) = Inr cleaned_text"
    and i: "is_index_of_larger (prediction_code demo_response) p0 p1"
    and m: "confidence_score demo_response = max p0 p1"
    and lab: "prediction_label demo_response =
        (if prediction_code demo_response = 1 then ''Fraudulent (Fake)''
         else ''Non-Fraudulent (Real)'')"
    and pr: "probabilities demo_response = \<lparr> non_fraudulent = p0, fraudulent = p1 \<rparr>"
    and len: "input_text_length demo_response = length (job_description demo_request)"
      "cleaned_text_length demo_response = length cleaned_text"
    and mu: "model_used demo_response = model_label demo_request"
    by blast
  from pr have q: "p0 = 0.2" "p1 = 0.8"
    by (simp_all add: demo_response_def)
  from c t have ct: "cleaned_text = ''can rust''" by simp
  from demo_contract p t k i m lab pr len mu show ?thesis
    unfolding q ct j ml by simp
qed

text \<open>
  The endpoint tests the predicted label itself against 1 and reports \<^verbatim>\<open>int\<close> of it: a
  classifier outside the contract, trained on the labels 0.5 and 1.5, gets the code 1
  with the label \<^verbatim>\<open>Non-Fraudulent (Real)\<close> for its label 1.5.
\<close>

lemma fractional_label:
  "fst (predict_fraud ascii_env fractional_sklearn demo_store initial_state demo_request) =
     Inr fractional_response"
  by code_simp

end
